theory Spec2Isabelle
  imports Main "HOL-Library.Word"
begin

section \<open>The server configuration of \<open>ghost/servconf/servconf.go\<close>\<close>

text \<open>
  The package holds one struct, \<open>ServerConfig\<close>, with a getter and a setter per field, a
  constructor \<open>New\<close> and the projection \<open>WebConfig\<close>. Go strings are byte sequences and are
  modelled as \<open>string\<close> (a list of 8-bit characters); an \<open>error\<close> is its message, \<open>nil\<close> is
  \<open>None\<close>. The functions of other modules that the package calls (the Kubernetes resource
  parser and formatter, the client construction, the flag and path helpers) are not part of
  the repository: they are parameters of the model. For the formatter, whose body is one
  line, the function the package passes is given as well.
\<close>

subsection \<open>The regular expression and \<open>regexp.Find\<close>\<close>

text \<open>
  All three identifier setters compile the expression \<open>[a-z]([-a-z0-9]*[a-z0-9])?\<close>.
  A character class is a list of inclusive ranges. The syntax tree has the four shapes the
  expression is built from: a class, the greedy star of a class, concatenation, and the
  greedy optional group.
\<close>

type_synonym charclass = "(char \<times> char) list"

definition in_range :: "char \<times> char \<Rightarrow> char \<Rightarrow> bool" where
  "in_range r c = (of_char (fst r) \<le> (of_char c :: nat) \<and> (of_char c :: nat) \<le> of_char (snd r))"

definition in_class :: "charclass \<Rightarrow> char \<Rightarrow> bool" where
  "in_class cs c = list_ex (\<lambda>r. in_range r c) cs"

datatype regex = Class charclass | StarClass charclass | Cat regex regex | Opt regex

text \<open>
  Go's \<open>regexp\<close> (non-POSIX) returns the leftmost match, and among the matches starting there
  the one a backtracking search finds first. \<open>backtrack r s\<close> lists, in the order a
  backtracking search tries them, what is left of \<open>s\<close> after each way of matching \<open>r\<close> at its
  start: a greedy star tries the longest run first, a greedy option tries its body before
  the empty match.

  The expression's classes hold ASCII bytes only. Go decodes the input rune by rune, and
  every byte of a multi-byte or invalid sequence is at least \<open>0x80\<close>, so no such byte
  belongs to a class and matching byte by byte gives the same result.
\<close>

fun backtrack :: "regex \<Rightarrow> string \<Rightarrow> string list" where
  "backtrack (Class cs) [] = []"
| "backtrack (Class cs) (c # t) = (if in_class cs c then [t] else [])"
| "backtrack (StarClass cs) [] = [[]]"
| "backtrack (StarClass cs) (c # t) =
     (if in_class cs c then backtrack (StarClass cs) t @ [c # t] else [c # t])"
| "backtrack (Cat a b) s = concat (map (backtrack b) (backtrack a s))"
| "backtrack (Opt a) s = backtrack a s @ [s]"

text \<open>
  \<open>Find\<close> tries each start position from the left and returns the text of the first match,
  or \<open>nil\<close> (\<open>None\<close>) when there is none.
\<close>

fun Find :: "regex \<Rightarrow> string \<Rightarrow> string option" where
  "Find r [] = (case backtrack r [] of [] \<Rightarrow> None | t # _ \<Rightarrow> Some [])"
| "Find r (c # s) =
     (case backtrack r (c # s) of
        [] \<Rightarrow> Find r s
      | t # _ \<Rightarrow> Some (take (length (c # s) - length t) (c # s)))"

text \<open>
  A byte slice is \<open>nil\<close> or a sequence of bytes; \<open>bytes.Equal\<close> compares the contents and so
  treats \<open>nil\<close> and the empty slice as equal. \<open>[]byte(s)\<close> is never \<open>nil\<close>.
\<close>

definition slice_bytes :: "string option \<Rightarrow> string" where
  "slice_bytes b = (case b of None \<Rightarrow> [] | Some s \<Rightarrow> s)"

definition bytes_Equal :: "string option \<Rightarrow> string option \<Rightarrow> bool" where
  "bytes_Equal a b = (slice_bytes a = slice_bytes b)"

definition lower_class :: charclass where
  "lower_class = [(CHR ''a'', CHR ''z'')]"

definition ident_class :: charclass where
  "ident_class = [(CHR ''-'', CHR ''-''), (CHR ''a'', CHR ''z''), (CHR ''0'', CHR ''9'')]"

definition alnum_class :: charclass where
  "alnum_class = [(CHR ''a'', CHR ''z''), (CHR ''0'', CHR ''9'')]"

definition ident_group :: regex where
  "ident_group = Cat (StarClass ident_class) (Class alnum_class)"

definition ident_exp :: regex where
  "ident_exp = Cat (Class lower_class) (Opt ident_group)"

text \<open>
  \<open>strings.ToLower\<close> on a string of ASCII bytes maps \<open>A\<close>..\<open>Z\<close> to \<open>a\<close>..\<open>z\<close> and keeps every
  other byte. (On bytes from \<open>0x80\<close> Go maps whole runes through the Unicode tables; the
  setters below call it only on strings that passed the check, which are ASCII, see
  \<open>accepted_chars\<close>.)
\<close>

definition toLowerByte :: "char \<Rightarrow> char" where
  "toLowerByte c =
     (if in_range (CHR ''A'', CHR ''Z'') c then char_of (of_char c + (32 :: nat)) else c)"

definition ToLower :: "string \<Rightarrow> string" where
  "ToLower s = map toLowerByte s"

subsection \<open>The structs\<close>

text \<open>
  \<open>'q\<close> is \<open>resource.Quantity\<close>. The protocol is Go's \<open>apiv1.Protocol\<close>, a string type. The
  client set is a pointer: \<open>None\<close> is \<open>nil\<close>, \<open>Some a\<close> the address of a client set in the
  process's store, as \<open>kubernetes.NewForConfig\<close> returned it.
\<close>

record 'q ServerConfig =
  username :: string
  serverName :: string
  serverType :: string
  cpu :: 'q
  ram :: 'q
  disk :: 'q
  ip :: string
  internalPort :: "32 word"
  externalPort :: "32 word"
  protocol :: string
  clientset :: "nat option"

record WebConfig =
  Username :: string
  ServerName :: string
  ServerType :: string
  CPU :: string
  RAM :: string
  Disk :: string
  IP :: string
  InternalPort :: "32 word"
  ExternalPort :: "32 word"

subsection \<open>Getters and setters\<close>

text \<open>
  A setter that returns an \<open>error\<close> is a function to the pair of that error (\<open>None\<close> is
  \<open>nil\<close>) and the configuration after the call.
\<close>

definition GetUsername :: "'q ServerConfig \<Rightarrow> string" where
  "GetUsername cfg = username cfg"

definition setUsername :: "string \<Rightarrow> 'q ServerConfig \<Rightarrow> string option \<times> 'q ServerConfig" where
  "setUsername u cfg =
     (if \<not> bytes_Equal (Find ident_exp u) (Some u)
      then (Some ''username must contain only alphanumeric, lowercase characters'', cfg)
      else (None, cfg\<lparr>username := ToLower u\<rparr>))"

definition GetServerName :: "'q ServerConfig \<Rightarrow> string" where
  "GetServerName cfg = serverName cfg"

definition setServerName :: "string \<Rightarrow> 'q ServerConfig \<Rightarrow> string option \<times> 'q ServerConfig" where
  "setServerName n cfg =
     (if \<not> bytes_Equal (Find ident_exp n) (Some n)
      then (Some ''servername must contain only alphanumeric, lowercase characters'', cfg)
      else (None, cfg\<lparr>serverName := ToLower n\<rparr>))"

definition GetServerType :: "'q ServerConfig \<Rightarrow> string" where
  "GetServerType cfg = serverType cfg"

definition SetType :: "string \<Rightarrow> 'q ServerConfig \<Rightarrow> string option \<times> 'q ServerConfig" where
  "SetType t cfg =
     (if \<not> bytes_Equal (Find ident_exp t) (Some t)
      then (Some ''servertype must contain only alphanumeric, lowercase characters'', cfg)
      else (None, cfg\<lparr>serverType := ToLower t\<rparr>))"

definition GetInternalPort :: "'q ServerConfig \<Rightarrow> 32 word" where
  "GetInternalPort cfg = internalPort cfg"

definition SetInternalPort :: "32 word \<Rightarrow> 'q ServerConfig \<Rightarrow> 'q ServerConfig" where
  "SetInternalPort port cfg = cfg\<lparr>internalPort := port\<rparr>"

definition GetExternalPort :: "'q ServerConfig \<Rightarrow> 32 word" where
  "GetExternalPort cfg = externalPort cfg"

definition SetExternalPort :: "32 word \<Rightarrow> 'q ServerConfig \<Rightarrow> 'q ServerConfig" where
  "SetExternalPort port cfg = cfg\<lparr>externalPort := port\<rparr>"

definition GetIP :: "'q ServerConfig \<Rightarrow> string" where
  "GetIP cfg = ip cfg"

definition SetIP :: "string \<Rightarrow> 'q ServerConfig \<Rightarrow> 'q ServerConfig" where
  "SetIP a cfg = cfg\<lparr>ip := a\<rparr>"

definition GetProtocol :: "'q ServerConfig \<Rightarrow> string" where
  "GetProtocol cfg = protocol cfg"

definition SetProtocol :: "string \<Rightarrow> 'q ServerConfig \<Rightarrow> 'q ServerConfig" where
  "SetProtocol pr cfg = cfg\<lparr>protocol := pr\<rparr>"

text \<open>
  The quantity setters take \<open>resource.ParseQuantity\<close> as their first argument: it returns
  the quantity, or \<open>None\<close> where the Go function returns an error. They return nothing.
\<close>

definition GetCPU :: "'q ServerConfig \<Rightarrow> 'q" where
  "GetCPU cfg = cpu cfg"

definition SetCPU :: "(string \<Rightarrow> 'q option) \<Rightarrow> string \<Rightarrow> 'q ServerConfig \<Rightarrow> 'q ServerConfig" where
  "SetCPU ParseQuantity c cfg =
     (case ParseQuantity c of Some n \<Rightarrow> cfg\<lparr>cpu := n\<rparr> | None \<Rightarrow> cfg)"

definition GetRAM :: "'q ServerConfig \<Rightarrow> 'q" where
  "GetRAM cfg = ram cfg"

definition SetRAM :: "(string \<Rightarrow> 'q option) \<Rightarrow> string \<Rightarrow> 'q ServerConfig \<Rightarrow> 'q ServerConfig" where
  "SetRAM ParseQuantity r cfg =
     (case ParseQuantity (r @ ''Gi'') of Some n \<Rightarrow> cfg\<lparr>ram := n\<rparr> | None \<Rightarrow> cfg)"

definition GetDisk :: "'q ServerConfig \<Rightarrow> 'q" where
  "GetDisk cfg = disk cfg"

definition SetDisk :: "(string \<Rightarrow> 'q option) \<Rightarrow> string \<Rightarrow> 'q ServerConfig \<Rightarrow> 'q ServerConfig" where
  "SetDisk ParseQuantity d cfg =
     (case ParseQuantity (d @ ''Gi'') of Some n \<Rightarrow> cfg\<lparr>disk := n\<rparr> | None \<Rightarrow> cfg)"

definition GetKubeConfig :: "'q ServerConfig \<Rightarrow> nat option" where
  "GetKubeConfig cfg = clientset cfg"

text \<open>
  \<open>WebConfig\<close> takes the quantity's method \<open>OpenAPISchemaFormat\<close> as its first argument.
\<close>

definition WebConfig :: "('q \<Rightarrow> string) \<Rightarrow> 'q ServerConfig \<Rightarrow> WebConfig" where
  "WebConfig OpenAPISchemaFormat cfg =
     \<lparr>Username = GetUsername cfg,
      ServerName = GetServerName cfg,
      ServerType = GetServerType cfg,
      CPU = OpenAPISchemaFormat (GetCPU cfg),
      RAM = OpenAPISchemaFormat (GetRAM cfg),
      Disk = OpenAPISchemaFormat (GetRAM cfg),
      IP = GetIP cfg,
      InternalPort = GetInternalPort cfg,
      ExternalPort = GetExternalPort cfg\<rparr>"

text \<open>
  The method the package passes there. In \<open>k8s.io/apimachinery\<close>, \<open>OpenAPISchemaFormat\<close> of
  \<open>resource.Quantity\<close> is the hook that tells the OpenAPI generator the format of the type;
  its body is \<open>return ""\<close>. It returns the empty string for every quantity, and is not the
  method that renders a quantity (that is \<open>String\<close>).
\<close>

definition Quantity_OpenAPISchemaFormat :: "'q \<Rightarrow> string" where
  "Quantity_OpenAPISchemaFormat q = []"

subsection \<open>Construction\<close>

text \<open>
  \<open>New\<close> reads and writes the package variable \<open>kubeconfig\<close> (a pointer to the flag's value,
  \<open>nil\<close> until the flag is registered) and has \<open>kubernetes.NewForConfig\<close> build a client
  set, whose address it stores. The process state holds that variable and the store of the
  client sets that exist; an address is an index in the store.

  What \<open>New\<close> asks of its surroundings is the environment:
  \<^item> \<open>HomeDir\<close>: the result of \<open>homedir.HomeDir()\<close>;
  \<^item> \<open>Join\<close>: \<open>filepath.Join\<close>;
  \<^item> \<open>Parse\<close>: what \<open>flag.Parse()\<close> does with the command line: it ends the process with an
    exit code, or returns, the flag \<open>-kubeconfig\<close> given a value or left at its default;
  \<^item> \<open>BuildConfigFromFlags\<close> and \<open>NewForConfig\<close>: the two client-go functions, returning
    \<open>Inl\<close> of the error's message or \<open>Inr\<close> of the result. \<open>NewForConfig\<close> returns a
    pointer: it is given the store, and its result is the address it returns and the store
    after the call. Which address that is, a new one or one handed out before, is the
    library's affair and not fixed here;
  \<^item> \<open>ZeroQuantity\<close>: the zero value of \<open>resource.Quantity\<close>.
  A call of \<open>New\<close> returns normally (\<open>Inr\<close>) or ends in a panic or an exit (\<open>Inl\<close>); the
  process state after the call is returned beside it.
\<close>

datatype flag_parse = FlagExit nat | FlagValue "string option"

datatype abort = Panic string | Exit nat

record ('q, 'k, 'cs) environment =
  HomeDir :: string
  Join :: "string list \<Rightarrow> string"
  Parse :: flag_parse
  BuildConfigFromFlags :: "string \<Rightarrow> string \<Rightarrow> string + 'k"
  NewForConfig :: "'k \<Rightarrow> 'cs list \<Rightarrow> string + nat \<times> 'cs list"
  ZeroQuantity :: 'q

record 'cs process =
  kubeconfig :: "string option"
  clientsets :: "'cs list"

text \<open>The struct literal \<open>ServerConfig{}\<close>: every field at its zero value.\<close>

definition ServerConfig_zero :: "'q \<Rightarrow> 'q ServerConfig" where
  "ServerConfig_zero q0 =
     \<lparr>username = [], serverName = [], serverType = [], cpu = q0, ram = q0, disk = q0,
      ip = [], internalPort = 0, externalPort = 0, protocol = [], clientset = None\<rparr>"

text \<open>
  Lines 77 to 84 of \<open>New\<close>, and the read of \<open>*kubeconfig\<close> on line 85: when the variable is
  \<open>nil\<close> the flag is registered with its default and the command line is parsed; the result
  is the flag's value, or the exit.
\<close>

definition kubeconfig_flag ::
  "('q, 'k, 'cs) environment \<Rightarrow> 'cs process \<Rightarrow> (abort + string) \<times> 'cs process" where
  "kubeconfig_flag env p =
     (case kubeconfig p of
        Some path \<Rightarrow> (Inr path, p)
      | None \<Rightarrow>
          (let dflt = (if HomeDir env \<noteq> [] then Join env [HomeDir env, ''.kube'', ''config'']
                       else [])
           in case Parse env of
                FlagExit code \<Rightarrow> (Inl (Exit code), p\<lparr>kubeconfig := Some dflt\<rparr>)
              | FlagValue None \<Rightarrow> (Inr dflt, p\<lparr>kubeconfig := Some dflt\<rparr>)
              | FlagValue (Some v) \<Rightarrow> (Inr v, p\<lparr>kubeconfig := Some v\<rparr>)))"

definition New ::
  "('q, 'k, 'cs) environment \<Rightarrow> 'cs process \<Rightarrow> string \<Rightarrow> string
     \<Rightarrow> (abort + 'q ServerConfig) \<times> 'cs process" where
  "New env p u n =
     (case kubeconfig_flag env p of
        (Inl a, p1) \<Rightarrow> (Inl a, p1)
      | (Inr path, p1) \<Rightarrow>
          (case BuildConfigFromFlags env [] path of
             Inl err \<Rightarrow> (Inl (Panic err), p1)
           | Inr config \<Rightarrow>
               (case NewForConfig env config (clientsets p1) of
                  Inl err \<Rightarrow> (Inl (Panic err), p1)
                | Inr (handle, store) \<Rightarrow>
                    (let cfg0 = (ServerConfig_zero (ZeroQuantity env))
                                  \<lparr>clientset := Some handle\<rparr>;
                         p2 = p1\<lparr>clientsets := store\<rparr>;
                         cfg1 = snd (setUsername u cfg0);
                         cfg2 = snd (setServerName n cfg1)
                     in (Inr cfg2, p2)))))"

text \<open>
  client-go's \<open>NewForConfig\<close> allocates the client set it returns: whenever it succeeds, the
  address it returns is a new one, and the store has grown by that one client set.
\<close>

definition allocates :: "('q, 'k, 'cs) environment \<Rightarrow> bool" where
  "allocates env =
     (\<forall>config store handle store'.
        NewForConfig env config store = Inr (handle, store') \<longrightarrow>
        handle = length store \<and> length store' = Suc (length store))"

text \<open>
  A process that constructs one configuration after another, each from a pair of user name
  and server name, until one construction aborts.
\<close>

fun News ::
  "('q, 'k, 'cs) environment \<Rightarrow> 'cs process \<Rightarrow> (string \<times> string) list
     \<Rightarrow> (abort + 'q ServerConfig list) \<times> 'cs process" where
  "News env p [] = (Inr [], p)"
| "News env p (r # rs) =
     (case New env p (fst r) (snd r) of
        (Inl a, p1) \<Rightarrow> (Inl a, p1)
      | (Inr cfg, p1) \<Rightarrow>
          (case News env p1 rs of
             (Inl a, p2) \<Rightarrow> (Inl a, p2)
           | (Inr cfgs, p2) \<Rightarrow> (Inr (cfg # cfgs), p2)))"

subsection \<open>Sequences of setter calls\<close>

datatype call =
    Call_setUsername string
  | Call_setServerName string
  | Call_SetType string
  | Call_SetInternalPort "32 word"
  | Call_SetExternalPort "32 word"
  | Call_SetIP string
  | Call_SetProtocol string
  | Call_SetCPU string
  | Call_SetRAM string
  | Call_SetDisk string

fun do_call :: "(string \<Rightarrow> 'q option) \<Rightarrow> 'q ServerConfig \<Rightarrow> call \<Rightarrow> 'q ServerConfig" where
  "do_call P cfg (Call_setUsername s) = snd (setUsername s cfg)"
| "do_call P cfg (Call_setServerName s) = snd (setServerName s cfg)"
| "do_call P cfg (Call_SetType s) = snd (SetType s cfg)"
| "do_call P cfg (Call_SetInternalPort w) = SetInternalPort w cfg"
| "do_call P cfg (Call_SetExternalPort w) = SetExternalPort w cfg"
| "do_call P cfg (Call_SetIP s) = SetIP s cfg"
| "do_call P cfg (Call_SetProtocol s) = SetProtocol s cfg"
| "do_call P cfg (Call_SetCPU s) = SetCPU P s cfg"
| "do_call P cfg (Call_SetRAM s) = SetRAM P s cfg"
| "do_call P cfg (Call_SetDisk s) = SetDisk P s cfg"

definition do_calls :: "(string \<Rightarrow> 'q option) \<Rightarrow> 'q ServerConfig \<Rightarrow> call list \<Rightarrow> 'q ServerConfig" where
  "do_calls P cfg cs = foldl (do_call P) cfg cs"

subsection \<open>The identifier pattern as the specification words it\<close>

text \<open>
  The specification's pattern \<open>^[a-z]([-a-z0-9]*[a-z0-9])?$\<close>, in its own words: the string
  starts with a lowercase letter, followed by zero or more lowercase-alphanumeric-or-hyphen
  characters, ending in a lowercase letter or digit; one lowercase letter alone is valid.
\<close>

definition lowercase_letter :: "char \<Rightarrow> bool" where
  "lowercase_letter c = in_range (CHR ''a'', CHR ''z'') c"

definition uppercase_letter :: "char \<Rightarrow> bool" where
  "uppercase_letter c = in_range (CHR ''A'', CHR ''Z'') c"

definition digit :: "char \<Rightarrow> bool" where
  "digit c = in_range (CHR ''0'', CHR ''9'') c"

definition identifier_char :: "char \<Rightarrow> bool" where
  "identifier_char c = (lowercase_letter c \<or> digit c \<or> c = CHR ''-'')"

fun matches_identifier_pattern :: "string \<Rightarrow> bool" where
  "matches_identifier_pattern [] = False"
| "matches_identifier_pattern (c # t) =
     (lowercase_letter c \<and>
      (t = [] \<or> (list_all identifier_char t \<and> (lowercase_letter (last t) \<or> digit (last t)))))"

definition valid_identifier :: "string \<Rightarrow> bool" where
  "valid_identifier s = (s = [] \<or> matches_identifier_pattern s)"

definition identifiers_valid :: "'q ServerConfig \<Rightarrow> bool" where
  "identifiers_valid cfg =
     (valid_identifier (username cfg) \<and> valid_identifier (serverName cfg) \<and>
      valid_identifier (serverType cfg))"

definition no_uppercase :: "string \<Rightarrow> bool" where
  "no_uppercase s = (\<not> list_ex uppercase_letter s)"

fun leading_digit_or_hyphen :: "string \<Rightarrow> bool" where
  "leading_digit_or_hyphen [] = False"
| "leading_digit_or_hyphen (c # t) = (digit c \<or> c = CHR ''-'')"

subsection \<open>Sample surroundings\<close>

text \<open>
  Concrete values for the parameters, to run the model on: quantities as a count with or
  without the binary unit, a parser that knows three quantity strings, the canonical string
  (the method \<open>String\<close>) of the quantities that occur in the sample runs, which are the three
  the parser returns and the zero quantity, and an environment in which both client-go calls
  succeed and \<open>NewForConfig\<close> allocates.
\<close>

datatype sample_quantity = Plain nat | Gibi nat

definition sample_ParseQuantity :: "string \<Rightarrow> sample_quantity option" where
  "sample_ParseQuantity = map_of [(''2'', Plain 2), (''4Gi'', Gibi 4), (''10Gi'', Gibi 10)]"

definition sample_String :: "sample_quantity \<Rightarrow> string" where
  "sample_String q =
     (if q = Plain 2 then ''2'' else if q = Gibi 4 then ''4Gi''
      else if q = Gibi 10 then ''10Gi'' else ''0'')"

definition sample_Join :: "string list \<Rightarrow> string" where
  "sample_Join xs = (case xs of [] \<Rightarrow> [] | x # ys \<Rightarrow> x @ concat (map ((@) ''/'') ys))"

definition sample_Build :: "string \<Rightarrow> string \<Rightarrow> string + string" where
  "sample_Build masterUrl path = (if path = [] then Inl ''no configuration'' else Inr path)"

definition sample_NewForConfig :: "string \<Rightarrow> string list \<Rightarrow> string + nat \<times> string list" where
  "sample_NewForConfig config store = Inr (length store, store @ [config])"

definition sample_env :: "(sample_quantity, string, string) environment" where
  "sample_env =
     \<lparr>HomeDir = ''/home/quinn'', Join = sample_Join, Parse = FlagValue None,
      BuildConfigFromFlags = sample_Build, NewForConfig = sample_NewForConfig,
      ZeroQuantity = Plain 0\<rparr>"

definition sample_env_no_home :: "(sample_quantity, string, string) environment" where
  "sample_env_no_home = sample_env\<lparr>HomeDir := []\<rparr>"

definition process_start :: "string process" where
  "process_start = \<lparr>kubeconfig = None, clientsets = []\<rparr>"

text \<open>
  What two constructions in a row return in these surroundings, the first asked for the user
  name \<open>Bob!\<close> and the server name \<open>web\<close>, the second for \<open>quinn\<close> and \<open>db\<close>, and the process
  state after them (see \<open>News_sample\<close>); and a sequence of setter calls.
\<close>

definition sample_cfg :: "sample_quantity ServerConfig" where
  "sample_cfg =
     \<lparr>username = [], serverName = ''web'', serverType = [], cpu = Plain 0, ram = Plain 0,
      disk = Plain 0, ip = [], internalPort = 0, externalPort = 0, protocol = [],
      clientset = Some 0\<rparr>"

definition sample_cfg2 :: "sample_quantity ServerConfig" where
  "sample_cfg2 =
     \<lparr>username = ''quinn'', serverName = ''db'', serverType = [], cpu = Plain 0, ram = Plain 0,
      disk = Plain 0, ip = [], internalPort = 0, externalPort = 0, protocol = [],
      clientset = Some 1\<rparr>"

definition process_after_one :: "string process" where
  "process_after_one =
     \<lparr>kubeconfig = Some ''/home/quinn/.kube/config'',
      clientsets = [''/home/quinn/.kube/config'']\<rparr>"

definition process_after_two :: "string process" where
  "process_after_two =
     \<lparr>kubeconfig = Some ''/home/quinn/.kube/config'',
      clientsets = [''/home/quinn/.kube/config'', ''/home/quinn/.kube/config'']\<rparr>"

definition sample_calls :: "call list" where
  "sample_calls =
     [Call_SetType ''Minecraft'', Call_setUsername ''quinn-5'', Call_SetRAM ''4'',
      Call_SetType [], Call_SetInternalPort 25565]"

section \<open>What the check of the setters accepts\<close>

subsection \<open>Character classes\<close>

lemma in_range_single: "in_range (a, a) c = (c = a)"
proof -
  have "(of_char c :: nat) = of_char a \<longleftrightarrow> c = a"
    by (rule of_char_eq_iff)
  then show ?thesis
    by (auto simp: in_range_def)
qed

lemma in_class_simps:
  "in_class lower_class c = lowercase_letter c"
  "in_class alnum_class c = (lowercase_letter c \<or> digit c)"
  "in_class ident_class c = identifier_char c"
  by (auto simp: in_class_def lower_class_def alnum_class_def ident_class_def
      lowercase_letter_def digit_def identifier_char_def in_range_single)

lemma alnum_identifier_char:
  "lowercase_letter c \<Longrightarrow> identifier_char c" "digit c \<Longrightarrow> identifier_char c"
  by (auto simp: identifier_char_def)

lemma identifier_char_not_upper: "identifier_char c \<Longrightarrow> \<not> uppercase_letter c"
  by (auto simp: identifier_char_def lowercase_letter_def digit_def uppercase_letter_def
      in_range_def)

lemma identifier_char_not_underscore: "\<not> identifier_char CHR ''_''"
  by (simp add: identifier_char_def lowercase_letter_def digit_def in_range_def)

subsection \<open>The first match of the optional group\<close>

text \<open>
  The group \<open>[-a-z0-9]*[a-z0-9]\<close> on \<open>c # u\<close>: the star takes \<open>c\<close> and the search goes on
  in \<open>u\<close>; only when that fails does the star stop before \<open>c\<close>, and \<open>c\<close> is the closing
  letter or digit.
\<close>

lemma backtrack_group_Nil: "backtrack ident_group [] = []"
  by (simp add: ident_group_def)

lemma backtrack_group_Cons:
  "backtrack ident_group (c # u) =
     (if identifier_char c then backtrack ident_group u else []) @
     (if lowercase_letter c \<or> digit c then [u] else [])"
  by (auto simp: ident_group_def in_class_simps alnum_identifier_char)

lemma group_first_empty:
  "(backtrack ident_group t \<noteq> [] \<and> hd (backtrack ident_group t) = []) \<longleftrightarrow>
   (t \<noteq> [] \<and> list_all identifier_char t \<and> (lowercase_letter (last t) \<or> digit (last t)))"
proof (induction t)
  case Nil
  then show ?case
    by (simp add: backtrack_group_Nil)
next
  case (Cons c u)
  show ?case
  proof (cases "backtrack ident_group u = []")
    case True
    with Cons have "\<not> (u \<noteq> [] \<and> list_all identifier_char u
        \<and> (lowercase_letter (last u) \<or> digit (last u)))"
      by simp
    with True show ?thesis
      by (auto simp: backtrack_group_Cons alnum_identifier_char)
  next
    case False
    then have "u \<noteq> []"
      by (auto simp: backtrack_group_Nil)
    with False Cons show ?thesis
      by (auto simp: backtrack_group_Cons alnum_identifier_char)
  qed
qed

lemma backtrack_ident_exp:
  "backtrack ident_exp (c # t) =
     (if lowercase_letter c then backtrack ident_group t @ [t] else [])"
  by (simp add: ident_exp_def in_class_simps)

lemma ident_first_empty:
  "(backtrack ident_exp s \<noteq> [] \<and> hd (backtrack ident_exp s) = []) \<longleftrightarrow>
   matches_identifier_pattern s"
proof (cases s)
  case Nil
  then show ?thesis
    by (simp add: ident_exp_def)
next
  case (Cons c t)
  show ?thesis
  proof (cases "backtrack ident_group t = []")
    case True
    with Cons show ?thesis
      using group_first_empty [of t] by (auto simp: backtrack_ident_exp)
  next
    case False
    with Cons show ?thesis
      using group_first_empty [of t] by (auto simp: backtrack_ident_exp backtrack_group_Nil)
  qed
qed

text \<open>
  The predicate in the specification's words is the anchored match of the expression: some
  way of matching \<open>ident_exp\<close> at the start of \<open>s\<close> leaves nothing of \<open>s\<close>.
\<close>

lemma group_anchored:
  "[] \<in> set (backtrack ident_group t) \<longleftrightarrow>
   (t \<noteq> [] \<and> list_all identifier_char t \<and> (lowercase_letter (last t) \<or> digit (last t)))"
proof (induction t)
  case Nil
  then show ?case
    by (simp add: backtrack_group_Nil)
next
  case (Cons c u)
  then show ?case
    by (auto simp: backtrack_group_Cons alnum_identifier_char)
qed

lemma anchored_match_iff:
  "[] \<in> set (backtrack ident_exp s) \<longleftrightarrow> matches_identifier_pattern s"
proof (cases s)
  case Nil
  then show ?thesis
    by (simp add: ident_exp_def)
next
  case (Cons c t)
  then show ?thesis
    using group_anchored [of t] by (auto simp: backtrack_ident_exp)
qed

subsection \<open>When \<open>Find\<close> returns its whole input\<close>

lemma backtrack_suffix: "t \<in> set (backtrack r s) \<Longrightarrow> \<exists>x. s = x @ t"
proof (induction r s arbitrary: t rule: backtrack.induct)
  case (4 cs c t')
  then show ?case
    by (auto split: if_splits) (metis append_Cons)
next
  case (5 a b s)
  then show ?case
    by auto (metis append.assoc)
qed (auto split: if_splits)

lemma Find_length: "Find r s = Some m \<Longrightarrow> length m \<le> length s"
  by (induction r s rule: Find.induct) (auto split: list.splits)

lemma Find_whole:
  assumes "s \<noteq> []"
  shows "Find r s = Some s \<longleftrightarrow> (backtrack r s \<noteq> [] \<and> hd (backtrack r s) = [])"
proof -
  from assms obtain c u where s: "s = c # u"
    by (cases s) auto
  show ?thesis
  proof (cases "backtrack r (c # u)")
    case Nil
    have "Find r u \<noteq> Some (c # u)"
      using Find_length [of r u "c # u"] by auto
    with Nil s show ?thesis
      by simp
  next
    case (Cons t ts)
    then have "t \<in> set (backtrack r (c # u))"
      by simp
    then obtain x where x: "c # u = x @ t"
      using backtrack_suffix by blast
    then have "length (c # u) - length t = length x"
      by (metis add_diff_cancel_right' length_append)
    then have "take (length (c # u) - length t) (c # u) = x"
      using x by simp
    moreover have "x = c # u \<longleftrightarrow> t = []"
      using x by auto
    ultimately show ?thesis
      using Cons s by simp
  qed
qed

lemma accepted_iff:
  "bytes_Equal (Find ident_exp s) (Some s) \<longleftrightarrow> s = [] \<or> matches_identifier_pattern s"
proof (cases "s = []")
  case True
  then show ?thesis
    by (simp add: ident_exp_def bytes_Equal_def slice_bytes_def)
next
  case False
  then have "bytes_Equal (Find ident_exp s) (Some s) \<longleftrightarrow> Find ident_exp s = Some s"
    by (auto simp: bytes_Equal_def slice_bytes_def split: option.splits)
  with False show ?thesis
    using Find_whole [of s ident_exp] ident_first_empty [of s] by simp
qed

subsection \<open>Lowering an accepted string\<close>

lemma matches_chars: "matches_identifier_pattern s \<Longrightarrow> list_all identifier_char s"
  by (cases s) (auto simp: alnum_identifier_char)

lemma toLowerByte_id: "identifier_char c \<Longrightarrow> toLowerByte c = c"
  using identifier_char_not_upper [of c] by (simp add: toLowerByte_def uppercase_letter_def)

lemma ToLower_id: "list_all identifier_char s \<Longrightarrow> ToLower s = s"
  by (induction s) (simp_all add: ToLower_def toLowerByte_id)

lemma accepted_chars:
  "bytes_Equal (Find ident_exp s) (Some s) \<Longrightarrow> list_all identifier_char s"
  by (auto simp: accepted_iff matches_chars)

lemma accepted_ToLower:
  "bytes_Equal (Find ident_exp s) (Some s) \<Longrightarrow> ToLower s = s"
  by (simp add: accepted_chars ToLower_id)

lemma digit_not_lower: "digit c \<Longrightarrow> \<not> lowercase_letter c"
  by (auto simp: digit_def lowercase_letter_def in_range_def)

lemma hyphen_not_lower: "\<not> lowercase_letter CHR ''-''"
  by (simp add: lowercase_letter_def in_range_def)

section \<open>The identifier fields under the setters\<close>

lemma accepted_valid:
  "bytes_Equal (Find ident_exp s) (Some s) \<Longrightarrow> valid_identifier (ToLower s)"
  by (simp add: accepted_ToLower valid_identifier_def accepted_iff [symmetric])

lemma setUsername_valid:
  "identifiers_valid cfg \<Longrightarrow> identifiers_valid (snd (setUsername s cfg))"
  by (simp add: setUsername_def identifiers_valid_def accepted_valid)

lemma setServerName_valid:
  "identifiers_valid cfg \<Longrightarrow> identifiers_valid (snd (setServerName s cfg))"
  by (simp add: setServerName_def identifiers_valid_def accepted_valid)

lemma SetType_valid:
  "identifiers_valid cfg \<Longrightarrow> identifiers_valid (snd (SetType s cfg))"
  by (simp add: SetType_def identifiers_valid_def accepted_valid)

lemma other_setters_valid:
  "identifiers_valid (SetInternalPort w cfg) = identifiers_valid cfg"
  "identifiers_valid (SetExternalPort w cfg) = identifiers_valid cfg"
  "identifiers_valid (SetIP s cfg) = identifiers_valid cfg"
  "identifiers_valid (SetProtocol s cfg) = identifiers_valid cfg"
  "identifiers_valid (SetCPU P s cfg) = identifiers_valid cfg"
  "identifiers_valid (SetRAM P s cfg) = identifiers_valid cfg"
  "identifiers_valid (SetDisk P s cfg) = identifiers_valid cfg"
  by (simp_all add: SetInternalPort_def SetExternalPort_def SetIP_def SetProtocol_def
      SetCPU_def SetRAM_def SetDisk_def identifiers_valid_def split: option.splits)

lemma do_call_valid: "identifiers_valid cfg \<Longrightarrow> identifiers_valid (do_call P cfg c)"
  by (cases c)
    (simp_all add: setUsername_valid setServerName_valid SetType_valid other_setters_valid)

lemma do_calls_valid: "identifiers_valid cfg \<Longrightarrow> identifiers_valid (do_calls P cfg cs)"
  unfolding do_calls_def by (induction cs arbitrary: cfg) (simp_all add: do_call_valid)

lemma zero_valid: "identifiers_valid ((ServerConfig_zero q)\<lparr>clientset := a\<rparr>)"
  by (simp add: identifiers_valid_def ServerConfig_zero_def valid_identifier_def)

lemma New_valid: "fst (New env p u n) = Inr cfg \<Longrightarrow> identifiers_valid cfg"
  by (auto simp: New_def Let_def setUsername_valid setServerName_valid zero_valid
      split: prod.splits sum.splits)

lemma valid_no_uppercase: "valid_identifier s \<Longrightarrow> no_uppercase s"
  unfolding valid_identifier_def no_uppercase_def
  using identifier_char_not_upper
  by (auto simp: list_ex_iff list_all_iff dest!: matches_chars)

section \<open>Construction and the process state\<close>

lemma setters_keep_clientset:
  "clientset (snd (setUsername s cfg)) = clientset cfg"
  "clientset (snd (setServerName s cfg)) = clientset cfg"
  by (simp_all add: setUsername_def setServerName_def)

lemma kubeconfig_flag_set:
  "kubeconfig p = Some path \<Longrightarrow> kubeconfig_flag env p = (Inr path, p)"
  by (simp add: kubeconfig_flag_def)

lemma kubeconfig_flag_sets: "\<exists>path. kubeconfig (snd (kubeconfig_flag env p)) = Some path"
  by (auto simp: kubeconfig_flag_def Let_def split: option.splits flag_parse.splits)

lemma kubeconfig_flag_clientsets: "clientsets (snd (kubeconfig_flag env p)) = clientsets p"
  by (auto simp: kubeconfig_flag_def Let_def split: option.splits flag_parse.splits)

lemma kubeconfig_flag_Inr:
  assumes "kubeconfig_flag env p = (Inr path, p1)"
  shows "kubeconfig p1 = Some path"
    and "clientsets p1 = clientsets p"
    and "kubeconfig p \<noteq> None \<Longrightarrow> kubeconfig p = Some path"
  using assms
  by (auto simp: kubeconfig_flag_def Let_def split: option.splits flag_parse.splits)

text \<open>
  A construction that returns has read the flag's value, the stored one if there was one,
  has passed it to \<open>BuildConfigFromFlags\<close>, has called \<open>NewForConfig\<close> on the result, and
  holds the address that this call returned.
\<close>

lemma New_Inr:
  assumes "New env p u n = (Inr cfg, p')"
  shows "\<exists>path config handle.
      fst (kubeconfig_flag env p) = Inr path
      \<and> (kubeconfig p \<noteq> None \<longrightarrow> kubeconfig p = Some path)
      \<and> kubeconfig p' = Some path
      \<and> BuildConfigFromFlags env [] path = Inr config
      \<and> NewForConfig env config (clientsets p) = Inr (handle, clientsets p')
      \<and> clientset cfg = Some handle"
proof -
  obtain r p1 where k: "kubeconfig_flag env p = (r, p1)"
    by (cases "kubeconfig_flag env p") auto
  with assms obtain path where r: "r = Inr path"
    by (cases r) (auto simp: New_def)
  note f = kubeconfig_flag_Inr [OF k [unfolded r]]
  from assms k r obtain config where b: "BuildConfigFromFlags env [] path = Inr config"
    by (cases "BuildConfigFromFlags env [] path") (auto simp: New_def)
  from assms k r b obtain handle store where
    c: "NewForConfig env config (clientsets p1) = Inr (handle, store)"
    by (cases "NewForConfig env config (clientsets p1)") (auto simp: New_def)
  from assms k r b c have cfg: "clientset cfg = Some handle" and p': "p' = p1\<lparr>clientsets := store\<rparr>"
    by (auto simp: New_def Let_def setters_keep_clientset)
  have "fst (kubeconfig_flag env p) = Inr path"
    using k r by simp
  moreover have "kubeconfig p \<noteq> None \<longrightarrow> kubeconfig p = Some path"
    using f(3) by simp
  moreover have "kubeconfig p' = Some path"
    using f(1) p' by simp
  moreover have "NewForConfig env config (clientsets p) = Inr (handle, clientsets p')"
    using c f(2) p' by simp
  ultimately show ?thesis
    using b cfg by blast
qed

text \<open>With a \<open>NewForConfig\<close> that allocates, the addresses held are new ones, in order.\<close>

lemma News_handles:
  assumes "allocates env"
  shows "News env p rs = (Inr cfgs, p') \<Longrightarrow>
     map clientset cfgs = map Some [length (clientsets p) ..< length (clientsets p) + length rs]
     \<and> length (clientsets p') = length (clientsets p) + length rs
     \<and> (kubeconfig p \<noteq> None \<longrightarrow> kubeconfig p' = kubeconfig p)
     \<and> (rs \<noteq> [] \<longrightarrow> kubeconfig p' \<noteq> None)"
proof (induction rs arbitrary: p cfgs p')
  case Nil
  then show ?case
    by simp
next
  case (Cons r rs)
  from Cons.prems obtain cfg p1 cfgs' where
    n: "New env p (fst r) (snd r) = (Inr cfg, p1)" and
    ns: "News env p1 rs = (Inr cfgs', p')" and
    c: "cfgs = cfg # cfgs'"
    by (auto split: prod.splits sum.splits)
  note ih = Cons.IH [OF ns]
  from New_Inr [OF n] obtain path config handle where
    k1: "kubeconfig p \<noteq> None \<longrightarrow> kubeconfig p = Some path" and
    k2: "kubeconfig p1 = Some path" and
    a: "NewForConfig env config (clientsets p) = Inr (handle, clientsets p1)" and
    h: "clientset cfg = Some handle"
    by blast
  from assms a have fresh: "handle = length (clientsets p)"
    and grown: "length (clientsets p1) = Suc (length (clientsets p))"
    unfolding allocates_def by blast+
  have up: "[length (clientsets p) ..< length (clientsets p) + length (r # rs)]
      = length (clientsets p)
        # [Suc (length (clientsets p)) ..< Suc (length (clientsets p)) + length rs]"
    by (subst upt_rec) simp
  show ?case
    using ih k1 k2 h fresh grown c up by auto
qed

lemma sample_allocates: "allocates sample_env"
  by (simp add: allocates_def sample_env_def sample_NewForConfig_def)

subsection \<open>The sample runs\<close>

lemmas sample_defs = New_def Let_def kubeconfig_flag_def sample_env_def process_start_def
  sample_Join_def sample_Build_def sample_NewForConfig_def ServerConfig_zero_def
  setUsername_def setServerName_def ident_exp_def ident_group_def lower_class_def
  ident_class_def alnum_class_def in_class_def in_range_def bytes_Equal_def slice_bytes_def
  ToLower_def toLowerByte_def sample_cfg_def sample_cfg2_def process_after_one_def
  process_after_two_def

lemma New_sample: "fst (New sample_env process_start ''Bob!'' ''web'') = Inr sample_cfg"
  by (simp add: sample_defs)

lemma New_sample2:
  "New sample_env process_after_one ''quinn'' ''db'' = (Inr sample_cfg2, process_after_two)"
  by (simp add: sample_defs)

lemma News_sample:
  "News sample_env process_start [(''Bob!'', ''web''), (''quinn'', ''db'')]
     = (Inr [sample_cfg, sample_cfg2], process_after_two)"
  by (simp add: sample_defs)

section \<open>The claims\<close>

text \<open>
  C1. For every string \<open>s\<close> that matches \<open>^[a-z]([-a-z0-9]*[a-z0-9])?$\<close>, \<open>setUsername s\<close>
  returns no error, and \<open>GetUsername\<close> then returns \<open>s\<close> lowercased, which is \<open>s\<close> itself.
\<close>

theorem setUsername_accepts_pattern:
  assumes "matches_identifier_pattern s"
  shows "fst (setUsername s cfg) = None
    \<and> GetUsername (snd (setUsername s cfg)) = ToLower s
    \<and> ToLower s = s"
proof -
  have "bytes_Equal (Find ident_exp s) (Some s)"
    using assms by (simp add: accepted_iff)
  then show ?thesis
    by (simp add: setUsername_def GetUsername_def accepted_ToLower)
qed

theorem setUsername_accepts_pattern_witness:
  "matches_identifier_pattern ''bob-1''
   \<and> fst (setUsername ''bob-1'' sample_cfg) = None
   \<and> GetUsername (snd (setUsername ''bob-1'' sample_cfg)) = ''bob-1''"
proof -
  have m: "matches_identifier_pattern ''bob-1''"
    by (simp add: lowercase_letter_def digit_def identifier_char_def in_range_def)
  show ?thesis
    using m setUsername_accepts_pattern [OF m, of sample_cfg] by simp
qed

text \<open>
  C2 says that every string that does not match the identifier pattern is refused by each
  of the three identifier setters, with an error and the stored field unchanged. The empty
  string does not match the pattern; on a configuration that holds \<open>quinn\<close>, \<open>db\<close> and
  \<open>minecraft\<close> each setter returns no error for it and empties its field.
\<close>

theorem setters_accept_empty:
  "\<not> matches_identifier_pattern []
   \<and> setUsername [] (sample_cfg2\<lparr>serverType := ''minecraft''\<rparr>)
       = (None, sample_cfg2\<lparr>serverType := ''minecraft'', username := []\<rparr>)
   \<and> setServerName [] (sample_cfg2\<lparr>serverType := ''minecraft''\<rparr>)
       = (None, sample_cfg2\<lparr>serverType := ''minecraft'', serverName := []\<rparr>)
   \<and> SetType [] (sample_cfg2\<lparr>serverType := ''minecraft''\<rparr>)
       = (None, sample_cfg2\<lparr>serverType := []\<rparr>)"
  by (simp add: setUsername_def setServerName_def SetType_def ident_exp_def bytes_Equal_def
      slice_bytes_def ToLower_def)

text \<open>
  The empty string is the only such input: for every non-empty string that does not match
  the identifier pattern, each of \<open>setUsername\<close>, \<open>setServerName\<close> and \<open>SetType\<close> returns an
  error and leaves the configuration, so the stored field, unchanged.
\<close>

theorem setters_reject_nonempty_mismatch:
  assumes "s \<noteq> []" and "\<not> matches_identifier_pattern s"
  shows "fst (setUsername s cfg) \<noteq> None \<and> snd (setUsername s cfg) = cfg
    \<and> fst (setServerName s cfg) \<noteq> None \<and> snd (setServerName s cfg) = cfg
    \<and> fst (SetType s cfg) \<noteq> None \<and> snd (SetType s cfg) = cfg"
proof -
  have "\<not> bytes_Equal (Find ident_exp s) (Some s)"
    using assms by (simp add: accepted_iff)
  then show ?thesis
    by (simp add: setUsername_def setServerName_def SetType_def)
qed

theorem setters_reject_nonempty_mismatch_witness:
  "''Bob!'' \<noteq> [] \<and> \<not> matches_identifier_pattern ''Bob!''
   \<and> fst (setUsername ''Bob!'' sample_cfg) \<noteq> None
   \<and> snd (setUsername ''Bob!'' sample_cfg) = sample_cfg
   \<and> fst (setServerName ''Bob!'' sample_cfg) \<noteq> None
   \<and> snd (setServerName ''Bob!'' sample_cfg) = sample_cfg
   \<and> fst (SetType ''Bob!'' sample_cfg) \<noteq> None
   \<and> snd (SetType ''Bob!'' sample_cfg) = sample_cfg"
proof -
  have a: "''Bob!'' \<noteq> []"
    by simp
  have b: "\<not> matches_identifier_pattern ''Bob!''"
    by (simp add: lowercase_letter_def in_range_def)
  show ?thesis
    using a b setters_reject_nonempty_mismatch [OF a b, of sample_cfg] by simp
qed

text \<open>
  C3. Each of the three identifier setters, called with the empty string, returns no error
  and stores the empty string, although the empty string does not match the pattern:
  \<open>Find\<close> returns \<open>nil\<close> on the empty input, and \<open>bytes.Equal\<close> holds of \<open>nil\<close> and the
  empty slice.
\<close>

theorem setters_store_empty:
  "Find ident_exp [] = None \<and> bytes_Equal None (Some [])
   \<and> \<not> matches_identifier_pattern []
   \<and> setUsername [] cfg = (None, cfg\<lparr>username := []\<rparr>)
   \<and> setServerName [] cfg = (None, cfg\<lparr>serverName := []\<rparr>)
   \<and> SetType [] cfg = (None, cfg\<lparr>serverType := []\<rparr>)"
  by (simp add: setUsername_def setServerName_def SetType_def ident_exp_def bytes_Equal_def
      slice_bytes_def ToLower_def)

text \<open>
  C4. For every string that contains an uppercase letter or an underscore, or that starts
  with a digit or a hyphen, \<open>setServerName\<close> returns an error and leaves the configuration,
  so the stored server name, unchanged.
\<close>

theorem setServerName_rejects:
  assumes "list_ex uppercase_letter s \<or> CHR ''_'' \<in> set s \<or> leading_digit_or_hyphen s"
  shows "fst (setServerName s cfg) \<noteq> None \<and> snd (setServerName s cfg) = cfg"
proof -
  have ne: "s \<noteq> []"
    using assms by auto
  have "\<not> matches_identifier_pattern s"
  proof
    assume m: "matches_identifier_pattern s"
    then have all: "list_all identifier_char s"
      by (rule matches_chars)
    from assms show False
    proof (elim disjE)
      assume "list_ex uppercase_letter s"
      with all show False
        by (auto simp: list_ex_iff list_all_iff dest: identifier_char_not_upper)
    next
      assume "CHR ''_'' \<in> set s"
      with all show False
        by (auto simp: list_all_iff identifier_char_not_underscore)
    next
      assume "leading_digit_or_hyphen s"
      with m show False
        by (cases s) (auto simp: digit_not_lower hyphen_not_lower)
    qed
  qed
  with ne have "\<not> bytes_Equal (Find ident_exp s) (Some s)"
    by (simp add: accepted_iff)
  then show ?thesis
    by (simp add: setServerName_def)
qed

theorem setServerName_rejects_witness:
  "(list_ex uppercase_letter ''my_Server'' \<or> CHR ''_'' \<in> set ''my_Server''
      \<or> leading_digit_or_hyphen ''my_Server'')
   \<and> fst (setServerName ''my_Server'' sample_cfg) \<noteq> None
   \<and> serverName (snd (setServerName ''my_Server'' sample_cfg)) = ''web''"
proof -
  have h: "list_ex uppercase_letter ''my_Server'' \<or> CHR ''_'' \<in> set ''my_Server''
      \<or> leading_digit_or_hyphen ''my_Server''"
    by simp
  show ?thesis
    using h setServerName_rejects [OF h, of sample_cfg] by (simp add: sample_cfg_def)
qed

text \<open>
  C5. \<open>SetRAM\<close> parses its argument with \<open>Gi\<close> appended: for every argument, when the
  suffixed argument parses, the parsed quantity becomes the RAM and nothing else changes, so
  after \<open>SetRAM "4"\<close>, \<open>GetRAM\<close> is the quantity the parser gives for \<open>4Gi\<close>; and when the
  suffixed argument does not parse, \<open>SetRAM\<close> leaves the configuration as it was. It has no
  result to carry an error.
\<close>

theorem SetRAM_appends_Gi:
  "(P (r @ ''Gi'') = Some q \<longrightarrow>
      SetRAM P r cfg = cfg\<lparr>ram := q\<rparr> \<and> GetRAM (SetRAM P r cfg) = q)
   \<and> (P ''4Gi'' = Some q4 \<longrightarrow> GetRAM (SetRAM P ''4'' cfg) = q4)
   \<and> (P (r @ ''Gi'') = None \<longrightarrow> SetRAM P r cfg = cfg)"
  by (simp add: SetRAM_def GetRAM_def)

theorem SetRAM_appends_Gi_witness:
  "sample_ParseQuantity (''10'' @ ''Gi'') = Some (Gibi 10)
   \<and> SetRAM sample_ParseQuantity ''10'' sample_cfg = sample_cfg\<lparr>ram := Gibi 10\<rparr>
   \<and> sample_ParseQuantity ''4Gi'' = Some (Gibi 4)
   \<and> GetRAM (SetRAM sample_ParseQuantity ''4'' sample_cfg) = Gibi 4
   \<and> sample_ParseQuantity (''not-a-number'' @ ''Gi'') = None
   \<and> SetRAM sample_ParseQuantity ''not-a-number'' sample_cfg = sample_cfg"
  using SetRAM_appends_Gi [of sample_ParseQuantity "''10''" "Gibi 10" sample_cfg "Gibi 4"]
    SetRAM_appends_Gi [of sample_ParseQuantity "''not-a-number''" "Gibi 10" sample_cfg "Gibi 4"]
  by (simp add: sample_ParseQuantity_def)


text \<open>
  C7 asks that every field of the projection echo the stored field in its display form.
  After \<open>SetRAM "4"\<close> and \<open>SetDisk "10"\<close> the stored disk quantity is the one parsed from
  \<open>10Gi\<close>. The projection, built with the method the package calls, has the empty string in
  \<open>Disk\<close>, and in \<open>RAM\<close> and \<open>CPU\<close> as well: whatever string displays the stored disk
  quantity, unless it is empty, \<open>Disk\<close> is not that string. And with any rendering \<open>F\<close> in
  the place of that method, \<open>Disk\<close> is the rendering of the quantity parsed from \<open>4Gi\<close>, the
  RAM.
\<close>

theorem WebConfig_Disk_after_SetDisk:
  assumes "P ''4Gi'' = Some q4" and "P ''10Gi'' = Some q10" and "display q10 \<noteq> []"
  shows "GetRAM (SetDisk P ''10'' (SetRAM P ''4'' cfg)) = q4
    \<and> GetDisk (SetDisk P ''10'' (SetRAM P ''4'' cfg)) = q10
    \<and> Disk (WebConfig Quantity_OpenAPISchemaFormat (SetDisk P ''10'' (SetRAM P ''4'' cfg))) = []
    \<and> RAM (WebConfig Quantity_OpenAPISchemaFormat (SetDisk P ''10'' (SetRAM P ''4'' cfg))) = []
    \<and> CPU (WebConfig Quantity_OpenAPISchemaFormat (SetDisk P ''10'' (SetRAM P ''4'' cfg))) = []
    \<and> Disk (WebConfig Quantity_OpenAPISchemaFormat (SetDisk P ''10'' (SetRAM P ''4'' cfg)))
        \<noteq> display (GetDisk (SetDisk P ''10'' (SetRAM P ''4'' cfg)))
    \<and> Disk (WebConfig F (SetDisk P ''10'' (SetRAM P ''4'' cfg))) = F q4"
  using assms
  by (simp add: WebConfig_def GetRAM_def GetDisk_def SetRAM_def SetDisk_def
      Quantity_OpenAPISchemaFormat_def)

theorem WebConfig_Disk_after_SetDisk_witness:
  "sample_ParseQuantity ''4Gi'' = Some (Gibi 4)
   \<and> sample_ParseQuantity ''10Gi'' = Some (Gibi 10)
   \<and> sample_String (Gibi 10) \<noteq> []
   \<and> GetDisk (SetDisk sample_ParseQuantity ''10'' (SetRAM sample_ParseQuantity ''4'' sample_cfg))
       = Gibi 10
   \<and> sample_String
        (GetDisk (SetDisk sample_ParseQuantity ''10'' (SetRAM sample_ParseQuantity ''4'' sample_cfg)))
       = ''10Gi''
   \<and> Disk (WebConfig Quantity_OpenAPISchemaFormat
        (SetDisk sample_ParseQuantity ''10'' (SetRAM sample_ParseQuantity ''4'' sample_cfg)))
       = []"
proof -
  have a: "sample_ParseQuantity ''4Gi'' = Some (Gibi 4)"
    by (simp add: sample_ParseQuantity_def)
  have b: "sample_ParseQuantity ''10Gi'' = Some (Gibi 10)"
    by (simp add: sample_ParseQuantity_def)
  have c: "sample_String (Gibi 10) \<noteq> []"
    by (simp add: sample_String_def)
  have d: "sample_String (Gibi 10) = ''10Gi''"
    by (simp add: sample_String_def)
  show ?thesis
    using a b c d
      WebConfig_Disk_after_SetDisk
        [where P = sample_ParseQuantity and display = sample_String and cfg = sample_cfg
          and F = sample_String, OF a b c]
    by simp
qed

text \<open>
  C8, as stated: any two instances constructed in one process store the same client handle,
  created once. With a \<open>NewForConfig\<close> that allocates the client set it returns, two
  constructions in a row return configurations with the handles 0 and 1, and the store then
  holds two client sets.
\<close>

theorem shared_client_counterexample:
  "fst (New sample_env process_start ''Bob!'' ''web'') = Inr sample_cfg
   \<and> fst (New sample_env (snd (New sample_env process_start ''Bob!'' ''web'')) ''quinn'' ''db'')
       = Inr sample_cfg2
   \<and> GetKubeConfig sample_cfg = Some 0
   \<and> GetKubeConfig sample_cfg2 = Some 1
   \<and> GetKubeConfig sample_cfg \<noteq> GetKubeConfig sample_cfg2
   \<and> length (clientsets (snd (New sample_env
         (snd (New sample_env process_start ''Bob!'' ''web'')) ''quinn'' ''db''))) = 2"
  by (simp add: sample_defs GetKubeConfig_def)

text \<open>
  C8, amended. What is initialised at most once per process, by the first construction, is
  the kubeconfig flag value: every construction that returns reads the stored value if
  there is one, leaves it stored, and passes it to \<open>BuildConfigFromFlags\<close>. The client
  handle is not created once: every construction that returns has called \<open>NewForConfig\<close>
  itself, on the configuration built from that value, and holds the handle this call
  returned. So when \<open>NewForConfig\<close> allocates the client set it returns, as client-go's
  does, the instances a process constructs one after another hold pairwise different
  handles, and the store has gained one client set per construction.
\<close>

theorem client_built_by_every_construction:
  "(New env p u n = (Inr cfg, p') \<longrightarrow>
      (\<exists>path config handle.
          fst (kubeconfig_flag env p) = Inr path
          \<and> (kubeconfig p \<noteq> None \<longrightarrow> kubeconfig p = Some path)
          \<and> kubeconfig p' = Some path
          \<and> BuildConfigFromFlags env [] path = Inr config
          \<and> NewForConfig env config (clientsets p) = Inr (handle, clientsets p')
          \<and> GetKubeConfig cfg = Some handle))
   \<and> (allocates env \<and> News env q rs = (Inr cfgs, q') \<longrightarrow>
        distinct (map GetKubeConfig cfgs)
        \<and> length cfgs = length rs
        \<and> length (clientsets q') = length (clientsets q) + length rs
        \<and> (kubeconfig q \<noteq> None \<longrightarrow> kubeconfig q' = kubeconfig q))"
proof -
  have one: "New env p u n = (Inr cfg, p') \<longrightarrow>
      (\<exists>path config handle.
          fst (kubeconfig_flag env p) = Inr path
          \<and> (kubeconfig p \<noteq> None \<longrightarrow> kubeconfig p = Some path)
          \<and> kubeconfig p' = Some path
          \<and> BuildConfigFromFlags env [] path = Inr config
          \<and> NewForConfig env config (clientsets p) = Inr (handle, clientsets p')
          \<and> GetKubeConfig cfg = Some handle)"
    unfolding GetKubeConfig_def using New_Inr [of env p u n cfg p'] by blast
  have two: "allocates env \<and> News env q rs = (Inr cfgs, q') \<longrightarrow>
        distinct (map GetKubeConfig cfgs)
        \<and> length cfgs = length rs
        \<and> length (clientsets q') = length (clientsets q) + length rs
        \<and> (kubeconfig q \<noteq> None \<longrightarrow> kubeconfig q' = kubeconfig q)"
  proof (rule impI)
    assume "allocates env \<and> News env q rs = (Inr cfgs, q')"
    then have h: "map clientset cfgs
          = map Some [length (clientsets q) ..< length (clientsets q) + length rs]
        \<and> length (clientsets q') = length (clientsets q) + length rs
        \<and> (kubeconfig q \<noteq> None \<longrightarrow> kubeconfig q' = kubeconfig q)"
      using News_handles [of env q rs cfgs q'] by simp
    have g: "map GetKubeConfig cfgs = map clientset cfgs"
      by (simp add: GetKubeConfig_def)
    have d: "distinct (map clientset cfgs)"
      using h by (simp add: distinct_map)
    have l: "length cfgs = length rs"
      using h by (metis diff_add_inverse length_map length_upt)
    show "distinct (map GetKubeConfig cfgs)
          \<and> length cfgs = length rs
          \<and> length (clientsets q') = length (clientsets q) + length rs
          \<and> (kubeconfig q \<noteq> None \<longrightarrow> kubeconfig q' = kubeconfig q)"
      using h g d l by simp
  qed
  from one two show ?thesis
    by (rule conjI)
qed

theorem client_built_by_every_construction_witness:
  "New sample_env process_after_one ''quinn'' ''db'' = (Inr sample_cfg2, process_after_two)
   \<and> allocates sample_env
   \<and> News sample_env process_start [(''Bob!'', ''web''), (''quinn'', ''db'')]
       = (Inr [sample_cfg, sample_cfg2], process_after_two)
   \<and> fst (kubeconfig_flag sample_env process_after_one) = Inr ''/home/quinn/.kube/config''
   \<and> kubeconfig process_after_two = kubeconfig process_after_one
   \<and> GetKubeConfig sample_cfg2 = Some 1
   \<and> distinct (map GetKubeConfig [sample_cfg, sample_cfg2])
   \<and> length (clientsets process_after_two) = 2"
  using New_sample2 sample_allocates News_sample
    client_built_by_every_construction [of sample_env process_after_one "''quinn''" "''db''"
      sample_cfg2 process_after_two process_start
      "[(''Bob!'', ''web''), (''quinn'', ''db'')]" "[sample_cfg, sample_cfg2]" process_after_two]
  by (simp add: process_start_def process_after_one_def process_after_two_def
      kubeconfig_flag_def GetKubeConfig_def sample_cfg_def sample_cfg2_def)

text \<open>
  C9. When the kubeconfig path is at hand and \<open>BuildConfigFromFlags\<close> fails on it, or it
  succeeds and \<open>NewForConfig\<close> fails on its result, \<open>New\<close> ends in a panic carrying that
  error: it returns no configuration.
\<close>

theorem New_fails_fatally:
  assumes "fst (kubeconfig_flag env p) = Inr path"
    and "BuildConfigFromFlags env [] path = Inl err
      \<or> (\<exists>config. BuildConfigFromFlags env [] path = Inr config
            \<and> NewForConfig env config (clientsets p) = Inl err)"
  shows "fst (New env p u n) = Inl (Panic err)"
proof -
  obtain p1 where k: "kubeconfig_flag env p = (Inr path, p1)"
    using assms(1) by (cases "kubeconfig_flag env p") auto
  then have "clientsets p1 = clientsets p"
    by (rule kubeconfig_flag_Inr)
  with assms(2) k show ?thesis
    by (auto simp: New_def)
qed

theorem New_fails_fatally_witness:
  "fst (kubeconfig_flag sample_env_no_home process_start) = Inr []
   \<and> BuildConfigFromFlags sample_env_no_home [] [] = Inl ''no configuration''
   \<and> fst (New sample_env_no_home process_start ''quinn'' ''web'')
       = Inl (Panic ''no configuration'')"
proof -
  have a: "fst (kubeconfig_flag sample_env_no_home process_start) = Inr []"
    by (simp add: kubeconfig_flag_def sample_env_no_home_def sample_env_def process_start_def)
  have b: "BuildConfigFromFlags sample_env_no_home [] [] = Inl ''no configuration''"
    by (simp add: sample_env_no_home_def sample_env_def sample_Build_def)
  have c: "BuildConfigFromFlags sample_env_no_home [] [] = Inl ''no configuration''
      \<or> (\<exists>config. BuildConfigFromFlags sample_env_no_home [] [] = Inr config
            \<and> NewForConfig sample_env_no_home config (clientsets process_start)
                = Inl ''no configuration'')"
    using b by simp
  show ?thesis
    using a b New_fails_fatally [OF a c, of "''quinn''" "''web''"] by simp
qed

text \<open>
  C10. After a construction that returned, and after any sequence of setter calls on the
  configuration, each of the user name, the server name and the server type is the empty
  string or matches the identifier pattern; none of them holds an uppercase letter.
\<close>

theorem identifiers_stay_valid:
  assumes "fst (New env p u n) = Inr cfg"
  shows "identifiers_valid (do_calls P cfg cs)
    \<and> no_uppercase (username (do_calls P cfg cs))
    \<and> no_uppercase (serverName (do_calls P cfg cs))
    \<and> no_uppercase (serverType (do_calls P cfg cs))"
proof -
  have "identifiers_valid (do_calls P cfg cs)"
    using assms by (simp add: New_valid do_calls_valid)
  then show ?thesis
    by (simp add: identifiers_valid_def valid_no_uppercase)
qed

theorem identifiers_stay_valid_witness:
  "fst (New sample_env process_start ''Bob!'' ''web'') = Inr sample_cfg
   \<and> identifiers_valid (do_calls sample_ParseQuantity sample_cfg sample_calls)
   \<and> no_uppercase (username (do_calls sample_ParseQuantity sample_cfg sample_calls))
   \<and> no_uppercase (serverName (do_calls sample_ParseQuantity sample_cfg sample_calls))
   \<and> no_uppercase (serverType (do_calls sample_ParseQuantity sample_cfg sample_calls))"
  using New_sample identifiers_stay_valid [OF New_sample, of sample_ParseQuantity sample_calls]
  by simp

end
